theory Spec2Isabelle
  imports Main
begin

section \<open>JavaScript values used by the program\<close>

text \<open>
  A field that JavaScript may leave \<open>undefined\<close> (or \<open>null\<close>) is an \<open>option\<close>.
  Numbers are the integral ones (\<open>int\<close>): ports, offsets and counts; \<open>NaN\<close> and
  fractions are not represented. Truthiness is JavaScript's: the empty string, \<open>0\<close>,
  \<open>false\<close>, \<open>null\<close> and \<open>undefined\<close> are falsy.
\<close>

fun truthy_str :: "string option \<Rightarrow> bool" where
  "truthy_str None = False"
| "truthy_str (Some s) = (s \<noteq> [])"

fun truthy_num :: "int option \<Rightarrow> bool" where
  "truthy_num None = False"
| "truthy_num (Some n) = (n \<noteq> 0)"

fun truthy_bool :: "bool option \<Rightarrow> bool" where
  "truthy_bool None = False"
| "truthy_bool (Some b) = b"

text \<open>The idiom \<open>x || null\<close>: a falsy \<open>x\<close> becomes \<open>null\<close>.\<close>

definition str_or_null :: "string option \<Rightarrow> string option" where
  "str_or_null x = (if truthy_str x then x else None)"

definition num_or_null :: "int option \<Rightarrow> int option" where
  "num_or_null x = (if truthy_num x then x else None)"

text \<open>Decimal rendering of an integer, as a template literal prints a number.\<close>

definition digit_char :: "nat \<Rightarrow> char" where
  "digit_char d = ''0123456789'' ! d"

fun digits :: "nat \<Rightarrow> string" where
  "digits n = (if n < 10 then [digit_char n] else digits (n div 10) @ [digit_char (n mod 10)])"

declare digits.simps [simp del]

definition number_string :: "int \<Rightarrow> string" where
  "number_string i = (if i < 0 then CHR ''-'' # digits (nat (- i)) else digits (nat i))"

text \<open>
  Interpolation \<open>${x}\<close> in a template literal: a string prints as itself, a number in
  decimal, \<open>null\<close> as \<open>null\<close> and \<open>undefined\<close> as \<open>undefined\<close>.
\<close>

definition tpl_null :: "string option \<Rightarrow> string" where
  "tpl_null x = (case x of None \<Rightarrow> ''null'' | Some s \<Rightarrow> s)"

definition tpl_undefined :: "string option \<Rightarrow> string" where
  "tpl_undefined x = (case x of None \<Rightarrow> ''undefined'' | Some s \<Rightarrow> s)"

definition tpl_num_null :: "int option \<Rightarrow> string" where
  "tpl_num_null x = (case x of None \<Rightarrow> ''null'' | Some n \<Rightarrow> number_string n)"

text \<open>\<open>Array.prototype.slice(n)\<close> with one argument: a negative \<open>n\<close> counts from the end.\<close>

definition js_slice :: "int \<Rightarrow> 'a list \<Rightarrow> 'a list" where
  "js_slice n xs =
     (if n < 0 then drop (nat (max 0 (int (length xs) + n))) xs else drop (nat n) xs)"

section \<open>Paths\<close>

text \<open>
  An absolute, normalised POSIX path is the list of its components; the root is \<open>[]\<close>.
  \<open>path_resolve base name\<close> is \<open>path.resolve(base, name)\<close> for an absolute \<open>base\<close>:
  \<open>name\<close> is split at \<open>/\<close>, empty and \<open>.\<close> segments are dropped, \<open>..\<close> pops a
  component, and a \<open>name\<close> that starts with \<open>/\<close> starts again from the root.
\<close>

type_synonym path = "string list"

fun split_slash :: "string \<Rightarrow> string list" where
  "split_slash [] = [[]]"
| "split_slash (c # cs) =
     (if c = CHR ''/'' then [] # split_slash cs
      else (case split_slash cs of [] \<Rightarrow> [[c]] | s # ss \<Rightarrow> (c # s) # ss))"

definition resolve_step :: "path \<Rightarrow> string \<Rightarrow> path" where
  "resolve_step acc seg =
     (if seg = [] \<or> seg = ''.'' then acc
      else if seg = ''..'' then butlast acc
      else acc @ [seg])"

definition path_resolve :: "path \<Rightarrow> string \<Rightarrow> path" where
  "path_resolve base name =
     foldl resolve_step (if name \<noteq> [] \<and> hd name = CHR ''/'' then [] else base) (split_slash name)"

definition path_string :: "path \<Rightarrow> string" where
  "path_string p = (if p = [] then ''/'' else concat (map (\<lambda>c. CHR ''/'' # c) p))"

section \<open>Configuration (the interfaces of index.ts)\<close>

record MongoDBConfig =
  database :: "string option"
  host :: "string option"
  username :: "string option"
  password :: "string option"
  port :: "int option"
  ssl :: "bool option"
  authenticationDatabase :: "string option"

record HostPort =
  hp_host :: "string option"
  hp_port :: "int option"

record MongoDBInstance =
  i_scheme :: string
  i_username :: "string option"
  i_password :: "string option"
  i_database :: "string option"
  i_ssl :: "bool option"
  i_authenticationDatabase :: "string option"
  i_hosts :: "HostPort list"

record S3Config =
  accessKey :: "string option"
  secretKey :: "string option"
  region :: "string option"
  accessPerm :: "string option"
  bucketName :: "string option"

datatype mongodb_input = MongoURI string | MongoObject MongoDBConfig

record Config =
  keepLocalBackups :: bool
  noOfLocalBackups :: "int option"
  timezoneOffset :: "int option"
  mongodb :: "mongodb_input option"
  s3 :: "S3Config option"

section \<open>Errors and outcomes\<close>

datatype errno = ENOENT | ENOTDIR | EEXIST | EISDIR

datatype error =
    InvalidConfiguration
  | ParseError string
  | TypeError
  | FsError errno path
  | DumpFailure string
  | StreamError errno path
  | UploadFailure string

text \<open>
  What a call of \<open>backupAndUpload\<close> gives its caller: a promise that resolves, a promise
  that rejects, or an exception thrown before any promise exists.
\<close>

datatype outcome = Resolved | Rejected error | Threw error

section \<open>The world: local filesystem and the calls made to the outside\<close>

datatype node = File string | Dir | Other

datatype js_value =
    JUndefined
  | JStr string
  | JStream path
  | JObj "(string \<times> js_value) list"

datatype event =
    AwsConfigUpdate "(string \<times> js_value) list"
  | ExistsSync path
  | MkdirSync path
  | Exec string
  | CreateReadStream path
  | S3CreateBucket "(string \<times> js_value) list"
  | S3Upload "(string \<times> js_value) list"
  | ReaddirSync path
  | LstatSync path
  | UnlinkSync path

text \<open>
  The filesystem is an association list from paths to nodes. Its order is the order in
  which a directory lists its entries, so \<open>readdirSync\<close> of a directory is the names of
  the entries below it, in list order. The trace records every call the program makes to
  the filesystem, the subprocess runner and the storage client, oldest first.
\<close>

type_synonym filesystem = "(path \<times> node) list"

record world =
  fs :: filesystem
  trace :: "event list"

definition log_event :: "event \<Rightarrow> world \<Rightarrow> world" where
  "log_event e w = w\<lparr>trace := trace w @ [e]\<rparr>"

fun is_unlink :: "event \<Rightarrow> bool" where
  "is_unlink (UnlinkSync p) = True"
| "is_unlink _ = False"

definition js_opt :: "string option \<Rightarrow> js_value" where
  "js_opt x = (case x of None \<Rightarrow> JUndefined | Some s \<Rightarrow> JStr s)"

subsection \<open>The functions of Node's \<open>fs\<close> module that the program calls\<close>

definition dir_names :: "filesystem \<Rightarrow> path \<Rightarrow> string list" where
  "dir_names f d = map (\<lambda>(p, n). last p) (filter (\<lambda>(p, n). p \<noteq> [] \<and> butlast p = d) f)"

definition is_file :: "filesystem \<Rightarrow> path \<Rightarrow> bool" where
  "is_file f p = (case map_of f p of Some (File c) \<Rightarrow> True | _ \<Rightarrow> False)"

definition remove_path :: "path \<Rightarrow> filesystem \<Rightarrow> filesystem" where
  "remove_path p f = filter (\<lambda>(q, n). q \<noteq> p) f"

definition existsSync :: "path \<Rightarrow> world \<Rightarrow> bool \<times> world" where
  "existsSync p w = (map_of (fs w) p \<noteq> None, log_event (ExistsSync p) w)"

definition mkdirSync :: "path \<Rightarrow> world \<Rightarrow> (error + unit) \<times> world" where
  "mkdirSync p w =
     (let w1 = log_event (MkdirSync p) w in
      if p = [] \<or> map_of (fs w) p \<noteq> None then (Inl (FsError EEXIST p), w1)
      else (case map_of (fs w) (butlast p) of
              None \<Rightarrow> (if butlast p = [] then (Inr (), w1\<lparr>fs := fs w @ [(p, Dir)]\<rparr>)
                       else (Inl (FsError ENOENT p), w1))
            | Some Dir \<Rightarrow> (Inr (), w1\<lparr>fs := fs w @ [(p, Dir)]\<rparr>)
            | Some _ \<Rightarrow> (Inl (FsError ENOTDIR p), w1)))"

definition readdirSync :: "path \<Rightarrow> world \<Rightarrow> (error + string list) \<times> world" where
  "readdirSync d w =
     (let w1 = log_event (ReaddirSync d) w in
      case map_of (fs w) d of
        None \<Rightarrow> (if d = [] then (Inr (dir_names (fs w) d), w1) else (Inl (FsError ENOENT d), w1))
      | Some Dir \<Rightarrow> (Inr (dir_names (fs w) d), w1)
      | Some _ \<Rightarrow> (Inl (FsError ENOTDIR d), w1))"

text \<open>\<open>lstatSync(p).isFile()\<close>: throws when nothing is at \<open>p\<close>.\<close>

definition lstat_isFile :: "path \<Rightarrow> world \<Rightarrow> (error + bool) \<times> world" where
  "lstat_isFile p w =
     (let w1 = log_event (LstatSync p) w in
      case map_of (fs w) p of
        None \<Rightarrow> (Inl (FsError ENOENT p), w1)
      | Some n \<Rightarrow> (Inr (is_file (fs w) p), w1))"

definition unlinkSync :: "path \<Rightarrow> world \<Rightarrow> (error + unit) \<times> world" where
  "unlinkSync p w =
     (let w1 = log_event (UnlinkSync p) w in
      case map_of (fs w) p of
        None \<Rightarrow> (Inl (FsError ENOENT p), w1)
      | Some Dir \<Rightarrow> (Inl (FsError EISDIR p), w1)
      | Some _ \<Rightarrow> (Inr (), w1\<lparr>fs := remove_path p (fs w)\<rparr>))"

subsection \<open>What the program is given by its host\<close>

text \<open>
  The process root and the temporary directory, the clock (already formatted as
  \<open>YYYY-MM-DDTHH-mm-ss\<close> for an offset), the connection-URI parser, the subprocess
  runner (an external process may change the filesystem in any way and reports an error
  or none) and the storage client's answer to a put-object call.
\<close>

record env =
  PROJECT_ROOT :: path
  tmpdir :: path
  formatted_now :: "int \<Rightarrow> string"
  MongodbURI_parse :: "string \<Rightarrow> error + MongoDBInstance"
  exec :: "string \<Rightarrow> filesystem \<Rightarrow> string option \<times> filesystem"
  s3_upload :: "(string \<times> js_value) list \<Rightarrow> string option"

section \<open>The program (index.ts)\<close>

definition localBackupFolderName :: string where
  "localBackupFolderName = ''backups''"

text \<open>\<open>currentTime\<close>: the parameter defaults to \<open>0\<close> when it is \<open>undefined\<close>.\<close>

definition currentTime :: "env \<Rightarrow> int option \<Rightarrow> string" where
  "currentTime e tz = formatted_now e (case tz of None \<Rightarrow> 0 | Some z \<Rightarrow> z)"

definition getFileName :: "env \<Rightarrow> string option \<Rightarrow> int option \<Rightarrow> string" where
  "getFileName e db tz = tpl_undefined db @ ''_'' @ currentTime e tz @ ''.gz''"

definition getBackUpPath :: "env \<Rightarrow> Config \<Rightarrow> path" where
  "getBackUpPath e config =
     (if keepLocalBackups config then path_resolve (PROJECT_ROOT e) localBackupFolderName
      else tmpdir e)"

fun mongodb_truthy :: "mongodb_input \<Rightarrow> bool" where
  "mongodb_truthy (MongoURI u) = (u \<noteq> [])"
| "mongodb_truthy (MongoObject ob) = True"

definition isValidConfig :: "Config option \<Rightarrow> bool" where
  "isValidConfig config =
     (case config of
        None \<Rightarrow> False
      | Some c \<Rightarrow>
          (case mongodb c of
             None \<Rightarrow> False
           | Some m \<Rightarrow>
               (case s3 c of
                  None \<Rightarrow> False
                | Some s \<Rightarrow>
                    if mongodb_truthy m \<and> truthy_str (accessKey s) \<and> truthy_str (secretKey s)
                       \<and> truthy_str (region s) \<and> truthy_str (bucketName s)
                    then (case m of
                            MongoObject ob \<Rightarrow>
                              (if truthy_str (database ob) \<and> truthy_str (host ob) \<and> truthy_num (port ob)
                               then True else False)
                          | MongoURI u \<Rightarrow> True)
                    else False)))"

definition getMongodbConnectionInstance :: "env \<Rightarrow> Config \<Rightarrow> error + MongoDBInstance" where
  "getMongodbConnectionInstance e config =
     (case mongodb config of
        None \<Rightarrow> Inl TypeError
      | Some (MongoURI u) \<Rightarrow> MongodbURI_parse e u
      | Some (MongoObject ob) \<Rightarrow>
          Inr \<lparr>i_scheme = ''mongodb'',
               i_username = str_or_null (username ob),
               i_password = str_or_null (password ob),
               i_database = database ob,
               i_ssl = ssl ob,
               i_authenticationDatabase = authenticationDatabase ob,
               i_hosts = [\<lparr>hp_host = host ob, hp_port = port ob\<rparr>]\<rparr>)"

subsection \<open>cleanFs\<close>

text \<open>
  \<open>.filter(dirItem => lstatSync(path.resolve(backUpPath, dirItem)).isFile())\<close>: the
  first \<open>lstatSync\<close> that throws ends the whole call.
\<close>

fun filter_isFile :: "path \<Rightarrow> string list \<Rightarrow> world \<Rightarrow> (error + string list) \<times> world" where
  "filter_isFile d [] w = (Inr [], w)"
| "filter_isFile d (x # xs) w =
     (case lstat_isFile (path_resolve d x) w of
        (Inl err, w1) \<Rightarrow> (Inl err, w1)
      | (Inr b, w1) \<Rightarrow>
          (case filter_isFile d xs w1 of
             (Inl err, w2) \<Rightarrow> (Inl err, w2)
           | (Inr ys, w2) \<Rightarrow> (Inr (if b then x # ys else ys), w2)))"

text \<open>\<open>oldBackupNames.forEach(fileName => unlinkSync(path.resolve(backUpPath, fileName)))\<close>\<close>

fun unlink_each :: "path \<Rightarrow> string list \<Rightarrow> world \<Rightarrow> (error + unit) \<times> world" where
  "unlink_each d [] w = (Inr (), w)"
| "unlink_each d (x # xs) w =
     (case unlinkSync (path_resolve d x) w of
        (Inl err, w1) \<Rightarrow> (Inl err, w1)
      | (Inr u, w1) \<Rightarrow> unlink_each d xs w1)"

definition cleanFs :: "Config \<Rightarrow> path \<Rightarrow> path \<Rightarrow> world \<Rightarrow> (error + unit) \<times> world" where
  "cleanFs config fullFilePath backUpPath w =
     (if \<not> keepLocalBackups config then unlinkSync fullFilePath w
      else if truthy_num (noOfLocalBackups config) then
        (case readdirSync backUpPath w of
           (Inl err, w1) \<Rightarrow> (Inl err, w1)
         | (Inr items, w1) \<Rightarrow>
             (case filter_isFile backUpPath items w1 of
                (Inl err, w2) \<Rightarrow> (Inl err, w2)
              | (Inr files, w2) \<Rightarrow>
                  unlink_each backUpPath
                    (js_slice (case noOfLocalBackups config of None \<Rightarrow> 0 | Some n \<Rightarrow> n) (rev files))
                    w2))
      else (Inr (), w))"

subsection \<open>createS3Instance and its uploadFile\<close>

definition createS3Instance :: "S3Config \<Rightarrow> world \<Rightarrow> world" where
  "createS3Instance s3Config w =
     log_event (AwsConfigUpdate
       [(''accessKeyId'', js_opt (accessKey s3Config)),
        (''secretAccessKey'', js_opt (secretKey s3Config)),
        (''region'', js_opt (region s3Config))]) w"

definition uploadParams :: "S3Config \<Rightarrow> path \<Rightarrow> string \<Rightarrow> (string \<times> js_value) list" where
  "uploadParams s3Config fullFilePath fileName =
     [(''Bucket'', js_opt (bucketName s3Config)),
      (''Key'', JStr fileName),
      (''Body'', JStream fullFilePath)]"

definition bucketParams :: "S3Config \<Rightarrow> (string \<times> js_value) list" where
  "bucketParams s3Config =
     [(''Bucket'', js_opt (bucketName s3Config)),
      (''ACL'', JStr (case str_or_null (accessPerm s3Config) of None \<Rightarrow> ''private'' | Some a \<Rightarrow> a)),
      (''CreateBucketConfiguration'', JObj [(''LocationConstraint'', js_opt (region s3Config))])]"

text \<open>
  The read stream is opened first; \<open>createBucket\<close> is called next and its callback, which
  ignores its error, calls \<open>upload\<close>. The promise rejects with the stream's error when
  the file cannot be opened, and otherwise settles with the answer to \<open>upload\<close>.
\<close>

definition uploadFile :: "env \<Rightarrow> S3Config \<Rightarrow> path \<Rightarrow> string \<Rightarrow> world \<Rightarrow> (error + unit) \<times> world" where
  "uploadFile e s3Config fullFilePath fileName w =
     (let w1 = log_event (CreateReadStream fullFilePath) w;
          w2 = log_event (S3CreateBucket (bucketParams s3Config)) w1;
          w3 = log_event (S3Upload (uploadParams s3Config fullFilePath fileName)) w2
      in case map_of (fs w) fullFilePath of
           None \<Rightarrow> (Inl (StreamError ENOENT fullFilePath), w3)
         | Some Dir \<Rightarrow> (Inl (StreamError EISDIR fullFilePath), w3)
         | Some _ \<Rightarrow>
             (case s3_upload e (uploadParams s3Config fullFilePath fileName) of
                Some m \<Rightarrow> (Inl (UploadFailure m), w3)
              | None \<Rightarrow> (Inr (), w3)))"

subsection \<open>prepareFolderStructure\<close>

definition prepareFolderStructure :: "env \<Rightarrow> Config \<Rightarrow> world \<Rightarrow> (error + unit) \<times> world" where
  "prepareFolderStructure e config w =
     (if keepLocalBackups config then
        (let localFolder = path_resolve (PROJECT_ROOT e) localBackupFolderName in
         case existsSync localFolder w of
           (ex, w1) \<Rightarrow> if \<not> ex then mkdirSync localFolder w1 else (Inr (), w1))
      else (Inr (), w))"

subsection \<open>createBackup\<close>

text \<open>
  The command line that \<open>createBackup\<close> builds. \<open>mongodb.hosts[0]\<close> of an empty host
  list throws a TypeError.
\<close>

definition createBackup_command :: "MongoDBInstance \<Rightarrow> path \<Rightarrow> error + string" where
  "createBackup_command mongo fullFilePath =
     (case i_hosts mongo of
        [] \<Rightarrow> Inl TypeError
      | h # hs \<Rightarrow>
          (let db = tpl_undefined (i_database mongo);
               pw = str_or_null (i_password mongo);
               un = str_or_null (i_username mongo);
               hst = tpl_null (str_or_null (hp_host h));
               prt = tpl_num_null (num_or_null (hp_port h));
               use_ssl = truthy_bool (i_ssl mongo);
               auth = str_or_null (i_authenticationDatabase mongo);
               file = path_string fullFilePath;
               command0 = ''mongodump -h '' @ hst @ '' --port='' @ prt @ '' -d '' @ db
                          @ '' --quiet --gzip --archive='' @ file;
               command1 = (if truthy_str un \<and> truthy_str pw
                           then ''mongodump -h '' @ hst @ '' --port='' @ prt @ '' -d '' @ db
                                @ '' -p '' @ tpl_null pw @ '' -u '' @ tpl_null un
                                @ '' --quiet --gzip --archive='' @ file
                           else command0);
               command2 = (if truthy_str un \<and> \<not> truthy_str pw
                           then ''mongodump -h '' @ hst @ '' --port='' @ prt @ '' -d '' @ db
                                @ '' -u '' @ tpl_null un
                                @ '' --quiet --gzip --archive='' @ file
                           else command1);
               command3 = (if use_ssl then command2 @ '' --ssl'' else command2);
               command4 = (if truthy_str auth
                           then command3 @ '' --authenticationDatabase='' @ tpl_null auth
                           else command3)
           in Inr command4))"

definition createBackup :: "env \<Rightarrow> MongoDBInstance \<Rightarrow> path \<Rightarrow> world \<Rightarrow> (error + unit) \<times> world" where
  "createBackup e mongo fullFilePath w =
     (case createBackup_command mongo fullFilePath of
        Inl err \<Rightarrow> (Inl err, w)
      | Inr command \<Rightarrow>
          (case exec e command (fs w) of
             (err, f') \<Rightarrow>
               (let w1 = (log_event (Exec command) w)\<lparr>fs := f'\<rparr> in
                case err of
                  Some m \<Rightarrow> (Inl (DumpFailure m), w1)
                | None \<Rightarrow> (Inr (), w1))))"

subsection \<open>backupAndUpload\<close>

text \<open>
  \<open>createBackup(...).then(() => s3.uploadFile(...)).then(() => cleanFs(...))\<close>: a stage
  runs only when the one before it has resolved; an exception that \<open>cleanFs\<close> throws
  inside \<open>then\<close> rejects the promise.
\<close>

definition promise_chain ::
  "env \<Rightarrow> Config \<Rightarrow> S3Config \<Rightarrow> MongoDBInstance \<Rightarrow> path \<Rightarrow> string \<Rightarrow> path \<Rightarrow> world \<Rightarrow> outcome \<times> world" where
  "promise_chain e config s3Config mongoConnectionInstance fullFilePath fileName backUpPath w =
     (case createBackup e mongoConnectionInstance fullFilePath w of
        (Inl err, w1) \<Rightarrow> (Rejected err, w1)
      | (Inr u, w1) \<Rightarrow>
          (case uploadFile e s3Config fullFilePath fileName w1 of
             (Inl err, w2) \<Rightarrow> (Rejected err, w2)
           | (Inr u, w2) \<Rightarrow>
               (case cleanFs config fullFilePath backUpPath w2 of
                  (Inl err, w3) \<Rightarrow> (Rejected err, w3)
                | (Inr u, w3) \<Rightarrow> (Resolved, w3))))"

definition backupAndUpload :: "env \<Rightarrow> Config option \<Rightarrow> world \<Rightarrow> outcome \<times> world" where
  "backupAndUpload e config w =
     (if isValidConfig config then
        (case config of
           None \<Rightarrow> (Threw TypeError, w)
         | Some c \<Rightarrow>
             (case getMongodbConnectionInstance e c of
                Inl err \<Rightarrow> (Threw err, w)
              | Inr mongoConnectionInstance \<Rightarrow>
                  (let backUpPath = getBackUpPath e c;
                       fileName = getFileName e (i_database mongoConnectionInstance) (timezoneOffset c);
                       fullFilePath = path_resolve backUpPath fileName
                   in case s3 c of
                        None \<Rightarrow> (Threw TypeError, w)
                      | Some s3Config \<Rightarrow>
                          (let w1 = createS3Instance s3Config w in
                           case prepareFolderStructure e c w1 of
                             (Inl err, w2) \<Rightarrow> (Threw err, w2)
                           | (Inr u, w2) \<Rightarrow>
                               promise_chain e c s3Config mongoConnectionInstance
                                 fullFilePath fileName backUpPath w2))))
      else (Rejected InvalidConfiguration, w))"

section \<open>Reading traces and directories\<close>

text \<open>The parameter objects of the put-object calls in a trace, and a property of an object.\<close>

fun put_object_calls :: "event list \<Rightarrow> (string \<times> js_value) list list" where
  "put_object_calls [] = []"
| "put_object_calls (S3Upload ps # es) = ps # put_object_calls es"
| "put_object_calls (e # es) = put_object_calls es"

definition param :: "string \<Rightarrow> (string \<times> js_value) list \<Rightarrow> js_value option" where
  "param k ps = map_of ps k"

text \<open>
  The plain files of a directory, in listing order: the value of
  \<open>readdirSync(d).filter(dirItem => lstatSync(path.resolve(d, dirItem)).isFile())\<close> when no
  call throws.
\<close>

definition plain_files :: "filesystem \<Rightarrow> path \<Rightarrow> string list" where
  "plain_files f d = filter (\<lambda>x. is_file f (path_resolve d x)) (dir_names f d)"

section \<open>Sample inputs\<close>

text \<open>
  Concrete configurations, connections and hosts for the worked instances below.
  \<open>example_mongo_uri_config\<close> is the configuration of \<open>examples/example-mongo-uri.js\<close>.
\<close>

definition sample_s3 :: "string option \<Rightarrow> S3Config" where
  "sample_s3 perm = \<lparr>accessKey = Some ''a'', secretKey = Some ''b'', region = Some ''us-east-1'',
     accessPerm = perm, bucketName = Some ''backups''\<rparr>"

definition sample_mongo :: "int option \<Rightarrow> MongoDBConfig" where
  "sample_mongo p = \<lparr>database = Some ''sales'', host = Some ''localhost'', username = None,
     password = None, port = p, ssl = None, authenticationDatabase = None\<rparr>"

definition sample_config :: "bool \<Rightarrow> int option \<Rightarrow> int option \<Rightarrow> Config" where
  "sample_config keep n p = \<lparr>keepLocalBackups = keep, noOfLocalBackups = n, timezoneOffset = Some 0,
     mongodb = Some (MongoObject (sample_mongo p)), s3 = Some (sample_s3 None)\<rparr>"

definition example_mongo_uri_config :: Config where
  "example_mongo_uri_config = \<lparr>keepLocalBackups = True, noOfLocalBackups = Some 4,
     timezoneOffset = Some 300, mongodb = Some (MongoURI ''mongodb://localhost:27017/foobar''),
     s3 = Some \<lparr>accessKey = Some '''', secretKey = Some '''', region = Some '''',
                 accessPerm = None, bucketName = Some ''''\<rparr>\<rparr>"

definition sample_env :: "(filesystem \<Rightarrow> string option \<times> filesystem) \<Rightarrow> string option \<Rightarrow> env" where
  "sample_env dump answer = \<lparr>PROJECT_ROOT = [''app''], tmpdir = [''tmp''],
     formatted_now = (\<lambda>z. ''2020-01-02T03-04-05''),
     MongodbURI_parse = (\<lambda>u. Inl (ParseError u)),
     exec = (\<lambda>command. dump),
     s3_upload = (\<lambda>params. answer)\<rparr>"

definition sample_instance :: "string option \<Rightarrow> string option \<Rightarrow> MongoDBInstance" where
  "sample_instance u p = \<lparr>i_scheme = ''mongodb'', i_username = u, i_password = p,
     i_database = Some ''sales'', i_ssl = Some True, i_authenticationDatabase = Some ''admin'',
     i_hosts = [\<lparr>hp_host = Some ''localhost'', hp_port = Some 27017\<rparr>]\<rparr>"

text \<open>
  A staging directory \<open>/app/backups\<close> that holds two earlier backups, and an external dump
  that writes its archive at a given path and reports a given error or none.
\<close>

definition staged :: filesystem where
  "staged = [([''app''], Dir), ([''app'', ''backups''], Dir),
             ([''app'', ''backups'', ''a.gz''], File ''a''),
             ([''app'', ''backups'', ''b.gz''], File ''b'')]"

definition dump_to :: "path \<Rightarrow> string option \<Rightarrow> filesystem \<Rightarrow> string option \<times> filesystem" where
  "dump_to p err f = (err, f @ [(p, File ''dump'')])"

section \<open>Properties\<close>

text \<open>The equations that evaluate the program on a concrete input.\<close>

lemmas eval_defs =
  backupAndUpload_def promise_chain_def isValidConfig_def getMongodbConnectionInstance_def
  getBackUpPath_def getFileName_def currentTime_def localBackupFolderName_def
  createS3Instance_def prepareFolderStructure_def createBackup_def createBackup_command_def
  uploadFile_def uploadParams_def bucketParams_def cleanFs_def
  existsSync_def mkdirSync_def readdirSync_def lstat_isFile_def unlinkSync_def
  dir_names_def is_file_def remove_path_def log_event_def js_opt_def js_slice_def
  path_resolve_def resolve_step_def path_string_def
  str_or_null_def num_or_null_def tpl_null_def tpl_undefined_def tpl_num_null_def
  number_string_def digits.simps digit_char_def Let_def
  sample_env_def sample_config_def sample_mongo_def sample_s3_def

subsection \<open>The filesystem calls\<close>

lemma lstat_isFile_world:
  "lstat_isFile p w = (r, w1) \<Longrightarrow> fs w1 = fs w \<and> trace w1 = trace w @ [LstatSync p]"
  by (auto simp: lstat_isFile_def log_event_def Let_def split: option.splits)

lemma lstat_isFile_result:
  "lstat_isFile p w = (Inr b, w1) \<Longrightarrow> b = is_file (fs w) p"
  by (auto simp: lstat_isFile_def Let_def split: option.splits)

lemma readdirSync_world:
  "readdirSync d w = (r, w1) \<Longrightarrow> fs w1 = fs w \<and> trace w1 = trace w @ [ReaddirSync d]"
  by (auto simp: readdirSync_def log_event_def Let_def split: option.splits node.splits if_splits)

lemma readdirSync_result:
  "readdirSync d w = (Inr items, w1) \<Longrightarrow> items = dir_names (fs w) d"
  by (auto simp: readdirSync_def Let_def split: option.splits node.splits if_splits)

lemma unlinkSync_ok:
  "unlinkSync p w = (Inr u, w1) \<Longrightarrow>
     fs w1 = remove_path p (fs w) \<and> trace w1 = trace w @ [UnlinkSync p]"
  by (auto simp: unlinkSync_def log_event_def Let_def split: option.splits node.splits)

lemma map_of_remove_path: "map_of (remove_path p f) p = None"
  unfolding remove_path_def by (induction f) auto

lemma unlinkSync_result:
  "unlinkSync p w = (Inr u, w1) \<Longrightarrow> map_of (fs w1) p = None \<and> trace w1 = trace w @ [UnlinkSync p]"
  using unlinkSync_ok [of p w u w1] by (simp add: map_of_remove_path)

lemma unlinkSync_present:
  assumes "map_of (fs w) p \<noteq> None" and "map_of (fs w) p \<noteq> Some Dir"
  shows "unlinkSync p w = (Inr (), \<lparr>fs = remove_path p (fs w), trace = trace w @ [UnlinkSync p]\<rparr>)"
  using assms by (auto simp: unlinkSync_def log_event_def Let_def split: option.splits node.splits)

lemma fold_remove_path: "fold remove_path ps f = filter (\<lambda>(q, n). q \<notin> set ps) f"
proof (induction ps arbitrary: f)
  case Nil
  then show ?case by simp
next
  case (Cons p ps)
  have "filter (\<lambda>(q, n). q \<notin> set ps) (remove_path p f) = filter (\<lambda>(q, n). q \<notin> set (p # ps)) f"
    by (induction f) (auto simp: remove_path_def)
  with Cons show ?case by simp
qed

lemma map_of_removed:
  "map_of (filter (\<lambda>(q, n). q \<notin> S) f) p = (if p \<in> S then None else map_of f p)"
  by (induction f) auto

lemma is_file_removed:
  "is_file (filter (\<lambda>(q, n). q \<notin> S) f) p = (is_file f p \<and> p \<notin> S)"
  by (simp add: is_file_def map_of_removed)

lemma dir_names_removed:
  "dir_names (filter (\<lambda>(q, n). q \<notin> S) f) d =
     map (\<lambda>(p, n). last p)
       (filter (\<lambda>(p, n). p \<notin> S) (filter (\<lambda>(p, n). p \<noteq> [] \<and> butlast p = d) f))"
  unfolding dir_names_def by (induction f) auto

subsection \<open>The retention step\<close>

lemma filter_isFile_world:
  "filter_isFile d xs w = (r, w1) \<Longrightarrow>
     fs w1 = fs w \<and> filter is_unlink (trace w1) = filter is_unlink (trace w)"
proof (induction xs arbitrary: w r w1)
  case Nil
  then show ?case by simp
next
  case (Cons x xs)
  obtain r0 w0 where l: "lstat_isFile (path_resolve d x) w = (r0, w0)"
    by (cases "lstat_isFile (path_resolve d x) w")
  from lstat_isFile_world [OF l]
  have w0: "fs w0 = fs w" "filter is_unlink (trace w0) = filter is_unlink (trace w)"
    by simp_all
  show ?case
  proof (cases r0)
    case (Inl err)
    with Cons.prems l w0 show ?thesis by simp
  next
    case (Inr b)
    obtain r2 w2 where f: "filter_isFile d xs w0 = (r2, w2)"
      by (cases "filter_isFile d xs w0")
    from Cons.IH [OF f] w0
    have "fs w2 = fs w" "filter is_unlink (trace w2) = filter is_unlink (trace w)"
      by simp_all
    moreover from Cons.prems l Inr f have "w1 = w2"
      by (cases r2) simp_all
    ultimately show ?thesis by simp
  qed
qed

lemma filter_isFile_result:
  "filter_isFile d xs w = (Inr ys, w1) \<Longrightarrow>
     ys = filter (\<lambda>x. is_file (fs w) (path_resolve d x)) xs"
proof (induction xs arbitrary: w ys w1)
  case Nil
  then show ?case by simp
next
  case (Cons x xs)
  obtain r0 w0 where l: "lstat_isFile (path_resolve d x) w = (r0, w0)"
    by (cases "lstat_isFile (path_resolve d x) w")
  obtain r2 w2 where f: "filter_isFile d xs w0 = (r2, w2)"
    by (cases "filter_isFile d xs w0")
  from Cons.prems l f obtain b zs where r0: "r0 = Inr b" and r2: "r2 = Inr zs"
    and ys: "ys = (if b then x # zs else zs)"
    by (cases r0; cases r2) auto
  from lstat_isFile_world [OF l] have w0: "fs w0 = fs w" by simp
  from lstat_isFile_result l r0 have b: "b = is_file (fs w) (path_resolve d x)" by blast
  from f r2 have "filter_isFile d xs w0 = (Inr zs, w2)" by simp
  from Cons.IH [OF this] w0 have "zs = filter (\<lambda>x. is_file (fs w) (path_resolve d x)) xs" by simp
  with ys b show ?case by simp
qed

lemma unlink_each_ok:
  "unlink_each d xs w = (Inr u, w1) \<Longrightarrow>
     fs w1 = fold remove_path (map (path_resolve d) xs) (fs w)
     \<and> trace w1 = trace w @ map (\<lambda>x. UnlinkSync (path_resolve d x)) xs"
proof (induction xs arbitrary: w)
  case Nil
  then show ?case by simp
next
  case (Cons x xs)
  obtain r0 w0 where l: "unlinkSync (path_resolve d x) w = (r0, w0)"
    by (cases "unlinkSync (path_resolve d x) w")
  with Cons.prems obtain u0 where r0: "r0 = Inr u0" and rest: "unlink_each d xs w0 = (Inr u, w1)"
    by (cases r0) auto
  from unlinkSync_ok l r0
  have "fs w0 = remove_path (path_resolve d x) (fs w)" "trace w0 = trace w @ [UnlinkSync (path_resolve d x)]"
    by blast+
  with Cons.IH [OF rest] show ?case by simp
qed

lemma js_slice_drop: "0 \<le> n \<Longrightarrow> js_slice n xs = drop (nat n) xs"
  by (simp add: js_slice_def)

lemma cleanFs_trim:
  assumes keep: "keepLocalBackups c" and cap: "noOfLocalBackups c = Some N" and pos: "1 \<le> N"
    and run: "cleanFs c p d w = (Inr u, w')"
  shows "fs w' = fold remove_path
                   (map (path_resolve d) (drop (nat N) (rev (plain_files (fs w) d)))) (fs w)
       \<and> filter is_unlink (trace w') = filter is_unlink (trace w)
           @ map (\<lambda>x. UnlinkSync (path_resolve d x)) (drop (nat N) (rev (plain_files (fs w) d)))"
proof -
  obtain r1 w1 where rd: "readdirSync d w = (r1, w1)"
    by (cases "readdirSync d w")
  from run keep cap pos rd obtain items where r1: "r1 = Inr items"
    by (cases r1) (auto simp: cleanFs_def)
  obtain r2 w2 where fl: "filter_isFile d items w1 = (r2, w2)"
    by (cases "filter_isFile d items w1")
  from run keep cap pos rd r1 fl obtain files where r2: "r2 = Inr files"
    by (cases r2) (auto simp: cleanFs_def)
  from run keep cap pos rd r1 fl r2
  have ul: "unlink_each d (drop (nat N) (rev files)) w2 = (Inr u, w')"
    by (simp add: cleanFs_def js_slice_drop)
  from readdirSync_world [OF rd] have w1: "fs w1 = fs w" "trace w1 = trace w @ [ReaddirSync d]"
    by simp_all
  from filter_isFile_world [OF fl] w1
  have w2: "fs w2 = fs w" "filter is_unlink (trace w2) = filter is_unlink (trace w)"
    by simp_all
  from readdirSync_result rd r1 have items: "items = dir_names (fs w) d" by blast
  from fl r2 have "filter_isFile d items w1 = (Inr files, w2)" by simp
  from filter_isFile_result [OF this] w1 items have files: "files = plain_files (fs w) d"
    by (simp add: plain_files_def)
  from unlink_each_ok [OF ul] w2 files show ?thesis
    by (simp add: comp_def)
qed

lemma length_filter_map_filter:
  "length (filter Q (map g (filter B xs))) \<le> length (filter Q (map g xs))"
  by (induction xs) auto

lemma plain_files_after_removal:
  "length (plain_files (filter (\<lambda>(q, n). q \<notin> S) f) d)
     \<le> length (filter (\<lambda>x. path_resolve d x \<notin> S) (plain_files f d))"
proof -
  let ?E = "filter (\<lambda>(p, n). p \<noteq> [] \<and> butlast p = d) f"
  let ?Q = "\<lambda>x. is_file f (path_resolve d x) \<and> path_resolve d x \<notin> S"
  have "plain_files (filter (\<lambda>(q, n). q \<notin> S) f) d =
        filter ?Q (map (\<lambda>(p, n). last p) (filter (\<lambda>(p, n). p \<notin> S) ?E))"
    unfolding plain_files_def dir_names_removed is_file_removed ..
  then have "length (plain_files (filter (\<lambda>(q, n). q \<notin> S) f) d)
        \<le> length (filter ?Q (map (\<lambda>(p, n). last p) ?E))"
    using length_filter_map_filter [of ?Q "\<lambda>(p, n). last p" "\<lambda>(p, n). p \<notin> S" ?E] by simp
  moreover have "filter ?Q (map (\<lambda>(p, n). last p) ?E)
        = filter (\<lambda>x. path_resolve d x \<notin> S) (plain_files f d)"
    unfolding plain_files_def dir_names_def filter_filter ..
  ultimately show ?thesis by simp
qed

lemma kept_at_most:
  "length (filter (\<lambda>x. g x \<notin> g ` set (drop n (rev xs))) xs) \<le> n"
proof -
  let ?P = "\<lambda>x. g x \<notin> g ` set (drop n (rev xs))"
  have "length (filter ?P xs) = length (filter ?P (rev xs))"
    by (simp add: rev_filter [symmetric])
  also have "filter ?P (rev xs) = filter ?P (take n (rev xs)) @ filter ?P (drop n (rev xs))"
    by (metis append_take_drop_id filter_append)
  also have "filter ?P (drop n (rev xs)) = []"
    by (auto simp: filter_empty_conv)
  finally have "length (filter ?P xs) = length (filter ?P (take n (rev xs)))"
    by simp
  also have "\<dots> \<le> length (take n (rev xs))"
    by (rule length_filter_le)
  also have "\<dots> \<le> n" by simp
  finally show ?thesis .
qed

lemma cleanFs_at_most:
  assumes keep: "keepLocalBackups c" and cap: "noOfLocalBackups c = Some N" and pos: "1 \<le> N"
    and run: "cleanFs c p d w = (Inr u, w')"
  shows "length (plain_files (fs w') d) \<le> nat N"
proof -
  let ?old = "drop (nat N) (rev (plain_files (fs w) d))"
  let ?S = "path_resolve d ` set ?old"
  from cleanFs_trim [OF keep cap pos run]
  have "fs w' = filter (\<lambda>(q, n). q \<notin> ?S) (fs w)"
    by (simp add: fold_remove_path)
  then have "length (plain_files (fs w') d)
     \<le> length (filter (\<lambda>x. path_resolve d x \<notin> ?S) (plain_files (fs w) d))"
    using plain_files_after_removal [of ?S "fs w" d] by simp
  also have "\<dots> \<le> nat N" by (rule kept_at_most)
  finally show ?thesis .
qed

subsection \<open>The stages of a run\<close>

lemma createS3Instance_world:
  "fs (createS3Instance s w) = fs w
   \<and> filter is_unlink (trace (createS3Instance s w)) = filter is_unlink (trace w)"
  by (simp add: createS3Instance_def log_event_def)

lemma prepareFolderStructure_unlinks:
  "prepareFolderStructure e c w = (r, w1) \<Longrightarrow>
     filter is_unlink (trace w1) = filter is_unlink (trace w)"
  by (auto simp: prepareFolderStructure_def existsSync_def mkdirSync_def log_event_def Let_def
      split: if_splits option.splits node.splits)

lemma createBackup_world:
  "createBackup e m p w = (r, w1) \<Longrightarrow>
     filter is_unlink (trace w1) = filter is_unlink (trace w)
     \<and> fs w1 = (case createBackup_command m p of
                  Inl x \<Rightarrow> fs w
                | Inr command \<Rightarrow> snd (exec e command (fs w)))"
  by (auto simp: createBackup_def log_event_def Let_def split: sum.splits prod.splits option.splits)

lemma uploadFile_world:
  "uploadFile e s p n w = (r, w1) \<Longrightarrow>
     fs w1 = fs w \<and> filter is_unlink (trace w1) = filter is_unlink (trace w)"
  by (auto simp: uploadFile_def log_event_def Let_def split: option.splits node.splits)

lemma uploadFile_ok_node:
  "uploadFile e s p n w = (Inr u, w1) \<Longrightarrow> map_of (fs w) p \<noteq> None \<and> map_of (fs w) p \<noteq> Some Dir"
  by (auto simp: uploadFile_def Let_def split: option.splits node.splits)

lemma backupAndUpload_chain:
  assumes "isValidConfig (Some c)" and "getMongodbConnectionInstance e c = Inr inst"
    and "s3 c = Some s" and "prepareFolderStructure e c (createS3Instance s w0) = (Inr u, w)"
  shows "backupAndUpload e (Some c) w0 =
           promise_chain e c s inst
             (path_resolve (getBackUpPath e c) (getFileName e (i_database inst) (timezoneOffset c)))
             (getFileName e (i_database inst) (timezoneOffset c)) (getBackUpPath e c) w"
  using assms by (simp add: backupAndUpload_def Let_def)

lemma backupAndUpload_resolved:
  assumes "backupAndUpload e (Some c) w0 = (Resolved, w')"
  shows "\<exists>inst s w. getMongodbConnectionInstance e c = Inr inst \<and>
           promise_chain e c s inst
             (path_resolve (getBackUpPath e c) (getFileName e (i_database inst) (timezoneOffset c)))
             (getFileName e (i_database inst) (timezoneOffset c)) (getBackUpPath e c) w
           = (Resolved, w')"
  using assms
  by (auto simp: backupAndUpload_def Let_def split: if_splits sum.splits option.splits prod.splits)

lemma promise_chain_resolved:
  assumes "promise_chain e c s inst full name d w = (Resolved, w')"
  shows "\<exists>w2. cleanFs c full d w2 = (Inr (), w')"
  using assms
  by (auto simp: promise_chain_def split: sum.splits prod.splits)

subsection \<open>The claims\<close>

text \<open>
  C1, as stated, fails: with the access-control setting \<open>public-read\<close> configured, the one
  put-object call of \<open>uploadFile\<close> carries no \<open>ACL\<close> parameter at all.
\<close>

theorem put_object_acl_counterexample:
  "map (param ''ACL'')
     (put_object_calls (trace (snd (uploadFile (sample_env (Pair None) None)
        (sample_s3 (Some ''public-read'')) [''tmp'', ''x.gz''] ''x.gz''
        \<lparr>fs = [([''tmp'', ''x.gz''], File ''dump'')], trace = []\<rparr>)))) = [None]"
  by (simp add: uploadFile_def uploadParams_def log_event_def param_def Let_def sample_env_def)

text \<open>
  C1 (amended): for every storage configuration, \<open>uploadFile\<close> opens a read stream on the
  local file, calls create-bucket with the bucket name, the \<open>ACL\<close> (the configured value, or
  \<open>private\<close> when it is absent or empty) and the region, and then calls put-object with the
  bucket name, key = the file name and body = the read stream of the local file; the put-object
  call has no \<open>ACL\<close> parameter.
\<close>

theorem uploadFile_calls:
  "trace (snd (uploadFile e s p n w)) =
     trace w @
     [CreateReadStream p,
      S3CreateBucket
        [(''Bucket'', js_opt (bucketName s)),
         (''ACL'', JStr (case accessPerm s of None \<Rightarrow> ''private''
                         | Some a \<Rightarrow> if a = [] then ''private'' else a)),
         (''CreateBucketConfiguration'', JObj [(''LocationConstraint'', js_opt (region s))])],
      S3Upload [(''Bucket'', js_opt (bucketName s)), (''Key'', JStr n), (''Body'', JStream p)]]"
  by (simp add: uploadFile_def uploadParams_def bucketParams_def log_event_def str_or_null_def
      Let_def split: option.splits node.splits)

text \<open>
  The calls of \<open>uploadFile\<close> for a configuration with \<open>public-read\<close>.
\<close>

theorem uploadFile_calls_witness:
  "trace (snd (uploadFile (sample_env (Pair None) None)
        (sample_s3 (Some ''public-read'')) [''tmp'', ''x.gz''] ''x.gz''
        \<lparr>fs = [([''tmp'', ''x.gz''], File ''dump'')], trace = []\<rparr>)) =
     [CreateReadStream [''tmp'', ''x.gz''],
      S3CreateBucket
        [(''Bucket'', JStr ''backups''), (''ACL'', JStr ''public-read''),
         (''CreateBucketConfiguration'', JObj [(''LocationConstraint'', JStr ''us-east-1'')])],
      S3Upload [(''Bucket'', JStr ''backups''), (''Key'', JStr ''x.gz''),
                (''Body'', JStream [''tmp'', ''x.gz''])]]"
  using uploadFile_calls [of "sample_env (Pair None) None" "sample_s3 (Some ''public-read'')"
      "[''tmp'', ''x.gz'']" "''x.gz''" "\<lparr>fs = [([''tmp'', ''x.gz''], File ''dump'')], trace = []\<rparr>"]
  by (simp add: sample_s3_def js_opt_def)

text \<open>
  C2, as stated, fails: a structured database with host, database name and port \<open>0\<close>,
  and complete storage fields, is rejected by \<open>isValidConfig\<close>.
\<close>

theorem isValidConfig_port_zero_counterexample:
  "isValidConfig (Some (sample_config False None (Some 0))) = False"
  by (simp add: isValidConfig_def sample_config_def sample_mongo_def sample_s3_def)

text \<open>
  C2 (amended): for a structured database with non-empty host and database name and non-empty
  storage fields, \<open>isValidConfig\<close> accepts exactly when the port is truthy: present and not
  \<open>0\<close>.
\<close>

theorem isValidConfig_port_truthy:
  assumes "mongodb c = Some (MongoObject ob)" and "truthy_str (host ob)" and "truthy_str (database ob)"
    and "s3 c = Some s" and "truthy_str (accessKey s)" and "truthy_str (secretKey s)"
    and "truthy_str (region s)" and "truthy_str (bucketName s)"
  shows "isValidConfig (Some c) = (port ob \<noteq> None \<and> port ob \<noteq> Some 0)"
  using assms by (cases "port ob") (simp_all add: isValidConfig_def)

text \<open>
  Port \<open>27017\<close> is accepted, an absent port is rejected.
\<close>

theorem isValidConfig_port_truthy_witness:
  "isValidConfig (Some (sample_config False None (Some 27017)))
   \<and> \<not> isValidConfig (Some (sample_config False None None))"
  using isValidConfig_port_truthy [of "sample_config False None (Some 27017)" "sample_mongo (Some 27017)" "sample_s3 None"]
    isValidConfig_port_truthy [of "sample_config False None None" "sample_mongo None" "sample_s3 None"]
  by (simp add: sample_config_def sample_mongo_def sample_s3_def)

text \<open>
  C3: a configuration that lacks a required storage field (accessKey, secretKey, region,
  bucketName: absent, or empty, or the whole storage object absent) or a valid database field
  is not valid, and \<open>backupAndUpload\<close> rejects it with \<open>InvalidConfiguration\<close> leaving the
  world as it was: the filesystem is unchanged and no call is added to the trace.
\<close>

theorem invalid_config_rejected:
  assumes "\<not> truthy_str (Option.bind (s3 c) accessKey) \<or> \<not> truthy_str (Option.bind (s3 c) secretKey)
         \<or> \<not> truthy_str (Option.bind (s3 c) region) \<or> \<not> truthy_str (Option.bind (s3 c) bucketName)
         \<or> (case mongodb c of
               None \<Rightarrow> True
             | Some (MongoURI u) \<Rightarrow> u = []
             | Some (MongoObject ob) \<Rightarrow>
                 \<not> truthy_str (database ob) \<or> \<not> truthy_str (host ob) \<or> \<not> truthy_num (port ob))"
  shows "\<not> isValidConfig (Some c) \<and> backupAndUpload e (Some c) w = (Rejected InvalidConfiguration, w)"
proof -
  have "\<not> isValidConfig (Some c)"
    using assms
    by (auto simp: isValidConfig_def split: option.splits mongodb_input.splits)
  then show ?thesis
    by (simp add: backupAndUpload_def)
qed

text \<open>
  The configuration of \<open>examples/example-mongo-uri.js\<close>, whose storage fields are empty.
\<close>

theorem invalid_config_rejected_witness:
  "backupAndUpload (sample_env (\<lambda>f. (None, f)) None) (Some example_mongo_uri_config) \<lparr>fs = [], trace = []\<rparr>
     = (Rejected InvalidConfiguration, \<lparr>fs = [], trace = []\<rparr>)"
  using invalid_config_rejected [of example_mongo_uri_config "sample_env (\<lambda>f. (None, f)) None" "\<lparr>fs = [], trace = []\<rparr>"]
  by (simp add: example_mongo_uri_config_def)

text \<open>
  C4: the dump command is a head (host, port, database) and a tail (quiet, gzip, archive, then
  the ssl and authentication-database flags) with the credential flags between them: \<open>-p\<close> and
  \<open>-u\<close> when username and password are both present, \<open>-u\<close> alone when only the username
  is present, and nothing when the username is absent.
\<close>

theorem createBackup_command_credentials:
  assumes "i_hosts m = h # hs"
  shows "let head = ''mongodump -h '' @ tpl_null (str_or_null (hp_host h))
                    @ '' --port='' @ tpl_num_null (num_or_null (hp_port h))
                    @ '' -d '' @ tpl_undefined (i_database m);
             tail = '' --quiet --gzip --archive='' @ path_string f
                    @ (if truthy_bool (i_ssl m) then '' --ssl'' else [])
                    @ (if truthy_str (i_authenticationDatabase m)
                       then '' --authenticationDatabase='' @ tpl_null (i_authenticationDatabase m)
                       else [])
         in (\<forall>u p. i_username m = Some u \<and> u \<noteq> [] \<and> i_password m = Some p \<and> p \<noteq> [] \<longrightarrow>
               createBackup_command m f = Inr (head @ '' -p '' @ p @ '' -u '' @ u @ tail))
          \<and> (\<forall>u. i_username m = Some u \<and> u \<noteq> [] \<and> \<not> truthy_str (i_password m) \<longrightarrow>
               createBackup_command m f = Inr (head @ '' -u '' @ u @ tail))
          \<and> (\<not> truthy_str (i_username m) \<longrightarrow> createBackup_command m f = Inr (head @ tail))"
  using assms
  by (simp add: createBackup_command_def Let_def str_or_null_def tpl_null_def)

text \<open>
  The command for user \<open>bob\<close> with and without a password.
\<close>

theorem createBackup_command_credentials_witness:
  "createBackup_command (sample_instance (Some ''bob'') (Some ''secret'')) [''tmp'', ''x.gz'']
     = Inr ''mongodump -h localhost --port=27017 -d sales -p secret -u bob --quiet --gzip --archive=/tmp/x.gz --ssl --authenticationDatabase=admin''
   \<and> createBackup_command (sample_instance (Some ''bob'') None) [''tmp'', ''x.gz'']
     = Inr ''mongodump -h localhost --port=27017 -d sales -u bob --quiet --gzip --archive=/tmp/x.gz --ssl --authenticationDatabase=admin''"
  using createBackup_command_credentials [of "sample_instance (Some ''bob'') (Some ''secret'')"
      "\<lparr>hp_host = Some ''localhost'', hp_port = Some 27017\<rparr>" "[]" "[''tmp'', ''x.gz'']"]
    createBackup_command_credentials [of "sample_instance (Some ''bob'') None"
      "\<lparr>hp_host = Some ''localhost'', hp_port = Some 27017\<rparr>" "[]" "[''tmp'', ''x.gz'']"]
  by (simp add: sample_instance_def Let_def str_or_null_def num_or_null_def tpl_null_def
      tpl_num_null_def tpl_undefined_def path_string_def number_string_def digits.simps digit_char_def)

text \<open>
  C5: with \<open>keepLocalBackups\<close> and a maximum count \<open>N \<ge> 1\<close>, a call of \<open>cleanFs\<close> that
  returns has removed exactly the plain files of the staging directory that come after the first
  \<open>N\<close> in reversed listing order, by one \<open>unlinkSync\<close> each in that order, and at most \<open>N\<close>
  plain files are left; so after a run of \<open>backupAndUpload\<close> that resolves the staging
  directory holds at most \<open>N\<close> plain files.
\<close>

theorem retention_trims_to_cap:
  assumes "keepLocalBackups c" and "noOfLocalBackups c = Some N" and "1 \<le> N"
  shows "(cleanFs c p d w = (Inr (), w') \<longrightarrow>
            fs w' = fold remove_path
                      (map (path_resolve d) (drop (nat N) (rev (plain_files (fs w) d)))) (fs w)
          \<and> filter is_unlink (trace w') = filter is_unlink (trace w)
              @ map (\<lambda>x. UnlinkSync (path_resolve d x)) (drop (nat N) (rev (plain_files (fs w) d)))
          \<and> length (plain_files (fs w') d) \<le> nat N)
       \<and> (backupAndUpload e (Some c) w0 = (Resolved, w0') \<longrightarrow>
            length (plain_files (fs w0') (getBackUpPath e c)) \<le> nat N)"
proof (intro conjI impI)
  assume run: "cleanFs c p d w = (Inr (), w')"
  from cleanFs_trim [OF assms run]
  show "fs w' = fold remove_path
                  (map (path_resolve d) (drop (nat N) (rev (plain_files (fs w) d)))) (fs w)"
    and "filter is_unlink (trace w') = filter is_unlink (trace w)
           @ map (\<lambda>x. UnlinkSync (path_resolve d x)) (drop (nat N) (rev (plain_files (fs w) d)))"
    by simp_all
  from cleanFs_at_most [OF assms run] show "length (plain_files (fs w') d) \<le> nat N" .
next
  assume "backupAndUpload e (Some c) w0 = (Resolved, w0')"
  from backupAndUpload_resolved [OF this] obtain inst s w1 where
    "promise_chain e c s inst
       (path_resolve (getBackUpPath e c) (getFileName e (i_database inst) (timezoneOffset c)))
       (getFileName e (i_database inst) (timezoneOffset c)) (getBackUpPath e c) w1 = (Resolved, w0')"
    by blast
  from promise_chain_resolved [OF this] obtain w2 full where
    "cleanFs c full (getBackUpPath e c) w2 = (Inr (), w0')"
    by blast
  from cleanFs_at_most [OF assms this]
  show "length (plain_files (fs w0') (getBackUpPath e c)) \<le> nat N" .
qed

text \<open>
  Three files and a cap of \<open>2\<close>: the first listed file goes; and a whole run on the staged
  directory.
\<close>

theorem retention_trims_to_cap_witness:
  "fs (snd (cleanFs (sample_config True (Some 2) (Some 27017)) [''app'', ''backups'', ''c.gz'']
              [''app'', ''backups''] \<lparr>fs = staged @ [([''app'', ''backups'', ''c.gz''], File ''c'')], trace = []\<rparr>))
     = [([''app''], Dir), ([''app'', ''backups''], Dir),
        ([''app'', ''backups'', ''b.gz''], File ''b''), ([''app'', ''backups'', ''c.gz''], File ''c'')]
   \<and> length (plain_files (fs (snd (backupAndUpload
         (sample_env (dump_to [''app'', ''backups'', ''sales_2020-01-02T03-04-05.gz''] None) None)
         (Some (sample_config True (Some 2) (Some 27017))) \<lparr>fs = staged, trace = []\<rparr>)))
       [''app'', ''backups'']) \<le> 2"
proof -
  let ?c = "sample_config True (Some 2) (Some 27017)"
  let ?e = "sample_env (dump_to [''app'', ''backups'', ''sales_2020-01-02T03-04-05.gz''] None) None"
  let ?dir_w = "\<lparr>fs = staged @ [([''app'', ''backups'', ''c.gz''], File ''c'')], trace = []\<rparr>"
  let ?init = "\<lparr>fs = staged, trace = []\<rparr>"
  have keep: "keepLocalBackups ?c" and cap: "noOfLocalBackups ?c = Some 2"
    by (simp_all add: sample_config_def)
  have clean: "cleanFs ?c [''app'', ''backups'', ''c.gz''] [''app'', ''backups''] ?dir_w
                 = (Inr (), snd (cleanFs ?c [''app'', ''backups'', ''c.gz''] [''app'', ''backups''] ?dir_w))"
    by (simp add: eval_defs staged_def)
  have run: "backupAndUpload ?e (Some ?c) ?init = (Resolved, snd (backupAndUpload ?e (Some ?c) ?init))"
    by (simp add: eval_defs staged_def dump_to_def)
  have pf: "plain_files (fs ?dir_w) [''app'', ''backups''] = [''a.gz'', ''b.gz'', ''c.gz'']"
    by (simp add: plain_files_def eval_defs staged_def)
  from retention_trims_to_cap [OF keep cap, of "[''app'', ''backups'', ''c.gz'']" "[''app'', ''backups'']"
      ?dir_w "snd (cleanFs ?c [''app'', ''backups'', ''c.gz''] [''app'', ''backups''] ?dir_w)"
      ?e ?init "snd (backupAndUpload ?e (Some ?c) ?init)"] clean run
  have "fs (snd (cleanFs ?c [''app'', ''backups'', ''c.gz''] [''app'', ''backups''] ?dir_w))
          = fold remove_path (map (path_resolve [''app'', ''backups''])
              (drop (nat 2) (rev (plain_files (fs ?dir_w) [''app'', ''backups''])))) (fs ?dir_w)"
    and "length (plain_files (fs (snd (backupAndUpload ?e (Some ?c) ?init))) (getBackUpPath ?e ?c)) \<le> nat 2"
    by simp_all
  then show ?thesis
    unfolding pf by (simp add: eval_defs staged_def)
qed

text \<open>
  C6: with \<open>keepLocalBackups\<close> false, in a run that reaches the dump stage, when
  \<open>createBackup\<close> and then \<open>uploadFile\<close> succeed, \<open>backupAndUpload\<close> resolves, its last call
  is the \<open>unlinkSync\<close> of the artifact, the filesystem is the one the upload left with the
  artifact removed, and nothing is at the artifact's planned path. Whenever the run resolves,
  nothing is at that path and the last call is that unlink; \<open>cleanFs\<close> itself is the unlink of
  the artifact.
\<close>

theorem ephemeral_artifact_deleted:
  assumes "isValidConfig (Some c)" and "getMongodbConnectionInstance e c = Inr inst"
    and "s3 c = Some s" and "prepareFolderStructure e c (createS3Instance s w0) = (Inr (), w)"
    and "\<not> keepLocalBackups c"
  shows "let d = getBackUpPath e c;
             name = getFileName e (i_database inst) (timezoneOffset c);
             full = path_resolve d name
         in (\<forall>w1 w2. createBackup e inst full w = (Inr (), w1)
                 \<and> uploadFile e s full name w1 = (Inr (), w2) \<longrightarrow>
               backupAndUpload e (Some c) w0
                 = (Resolved, \<lparr>fs = remove_path full (fs w2), trace = trace w2 @ [UnlinkSync full]\<rparr>)
             \<and> map_of (remove_path full (fs w2)) full = None)
          \<and> (\<forall>w'. backupAndUpload e (Some c) w0 = (Resolved, w') \<longrightarrow>
               map_of (fs w') full = None \<and> trace w' \<noteq> [] \<and> last (trace w') = UnlinkSync full)
          \<and> cleanFs c p d' v = unlinkSync p v"
proof -
  let ?d = "getBackUpPath e c"
  let ?name = "getFileName e (i_database inst) (timezoneOffset c)"
  let ?full = "path_resolve ?d ?name"
  have del: "cleanFs c q d'' x = unlinkSync q x" for q d'' x
    using assms(5) by (simp add: cleanFs_def)
  have chain: "backupAndUpload e (Some c) w0 = promise_chain e c s inst ?full ?name ?d w"
    by (rule backupAndUpload_chain [OF assms(1-4)])
  have stages: "backupAndUpload e (Some c) w0
        = (Resolved, \<lparr>fs = remove_path ?full (fs w2), trace = trace w2 @ [UnlinkSync ?full]\<rparr>)
      \<and> map_of (remove_path ?full (fs w2)) ?full = None"
    if cb: "createBackup e inst ?full w = (Inr (), w1)"
      and up: "uploadFile e s ?full ?name w1 = (Inr (), w2)" for w1 w2
  proof -
    from uploadFile_ok_node [OF up] uploadFile_world [OF up]
    have "map_of (fs w2) ?full \<noteq> None" "map_of (fs w2) ?full \<noteq> Some Dir"
      by simp_all
    from unlinkSync_present [OF this]
    have "cleanFs c ?full ?d w2
            = (Inr (), \<lparr>fs = remove_path ?full (fs w2), trace = trace w2 @ [UnlinkSync ?full]\<rparr>)"
      by (simp add: del)
    with cb up show ?thesis
      by (simp add: chain promise_chain_def map_of_remove_path)
  qed
  have resolved: "map_of (fs w') ?full = None \<and> trace w' \<noteq> [] \<and> last (trace w') = UnlinkSync ?full"
    if "backupAndUpload e (Some c) w0 = (Resolved, w')" for w'
  proof -
    from that chain have "promise_chain e c s inst ?full ?name ?d w = (Resolved, w')"
      by simp
    from promise_chain_resolved [OF this] obtain w3 where
      "cleanFs c ?full ?d w3 = (Inr (), w')"
      by blast
    then have "unlinkSync ?full w3 = (Inr (), w')"
      by (simp add: del)
    from unlinkSync_result [OF this] show ?thesis
      by simp
  qed
  from stages resolved del show ?thesis
    unfolding Let_def by blast
qed

text \<open>
  A run that stages in the temporary directory: the dump writes the archive, the upload reads
  it, and the run ends by unlinking it.
\<close>

theorem ephemeral_artifact_deleted_witness:
  "fs (snd (createBackup (sample_env (dump_to [''tmp'', ''sales_2020-01-02T03-04-05.gz''] None) None)
         \<lparr>i_scheme = ''mongodb'', i_username = None, i_password = None,
           i_database = Some ''sales'', i_ssl = None, i_authenticationDatabase = None,
           i_hosts = [\<lparr>hp_host = Some ''localhost'', hp_port = Some 27017\<rparr>]\<rparr>
         [''tmp'', ''sales_2020-01-02T03-04-05.gz'']
         (createS3Instance (sample_s3 None) \<lparr>fs = [([''tmp''], Dir)], trace = []\<rparr>)))
     = [([''tmp''], Dir), ([''tmp'', ''sales_2020-01-02T03-04-05.gz''], File ''dump'')]
   \<and> backupAndUpload
         (sample_env (dump_to [''tmp'', ''sales_2020-01-02T03-04-05.gz''] None) None)
         (Some (sample_config False None (Some 27017))) \<lparr>fs = [([''tmp''], Dir)], trace = []\<rparr>
     = (Resolved,
        \<lparr>fs = [([''tmp''], Dir)],
          trace =
            [AwsConfigUpdate [(''accessKeyId'', JStr ''a''), (''secretAccessKey'', JStr ''b''),
                              (''region'', JStr ''us-east-1'')],
             Exec ''mongodump -h localhost --port=27017 -d sales --quiet --gzip --archive=/tmp/sales_2020-01-02T03-04-05.gz'',
             CreateReadStream [''tmp'', ''sales_2020-01-02T03-04-05.gz''],
             S3CreateBucket
               [(''Bucket'', JStr ''backups''), (''ACL'', JStr ''private''),
                (''CreateBucketConfiguration'', JObj [(''LocationConstraint'', JStr ''us-east-1'')])],
             S3Upload
               [(''Bucket'', JStr ''backups''), (''Key'', JStr ''sales_2020-01-02T03-04-05.gz''),
                (''Body'', JStream [''tmp'', ''sales_2020-01-02T03-04-05.gz''])],
             UnlinkSync [''tmp'', ''sales_2020-01-02T03-04-05.gz'']]\<rparr>)"
proof -
  let ?c = "sample_config False None (Some 27017)"
  let ?e = "sample_env (dump_to [''tmp'', ''sales_2020-01-02T03-04-05.gz''] None) None"
  let ?init = "\<lparr>fs = [([''tmp''], Dir)], trace = []\<rparr>"
  let ?inst = "\<lparr>i_scheme = ''mongodb'', i_username = None, i_password = None,
                i_database = Some ''sales'', i_ssl = None, i_authenticationDatabase = None,
                i_hosts = [\<lparr>hp_host = Some ''localhost'', hp_port = Some 27017\<rparr>]\<rparr>"
  let ?ready = "createS3Instance (sample_s3 None) ?init"
  have valid: "isValidConfig (Some ?c)"
    by (simp add: eval_defs)
  have inst: "getMongodbConnectionInstance ?e ?c = Inr ?inst"
    by (simp add: eval_defs)
  have store: "s3 ?c = Some (sample_s3 None)"
    by (simp add: sample_config_def)
  have prep: "prepareFolderStructure ?e ?c ?ready = (Inr (), ?ready)"
    by (simp add: prepareFolderStructure_def sample_config_def)
  have keep: "\<not> keepLocalBackups ?c"
    by (simp add: sample_config_def)
  let ?name = "getFileName ?e (i_database ?inst) (timezoneOffset ?c)"
  let ?full = "path_resolve (getBackUpPath ?e ?c) ?name"
  let ?dumped = "snd (createBackup ?e ?inst ?full ?ready)"
  let ?uploaded = "snd (uploadFile ?e (sample_s3 None) ?full ?name ?dumped)"
  have dump: "createBackup ?e ?inst ?full ?ready = (Inr (), ?dumped)"
    by (simp add: eval_defs dump_to_def)
  have upload: "uploadFile ?e (sample_s3 None) ?full ?name ?dumped = (Inr (), ?uploaded)"
    by (simp add: eval_defs dump_to_def)
  from ephemeral_artifact_deleted [OF valid inst store prep keep] dump upload
  have "backupAndUpload ?e (Some ?c) ?init
          = (Resolved, \<lparr>fs = remove_path ?full (fs ?uploaded),
                        trace = trace ?uploaded @ [UnlinkSync ?full]\<rparr>)"
    unfolding Let_def by blast
  then show ?thesis
    by (simp add: eval_defs dump_to_def)
qed

text \<open>
  C7: in a run that reaches the dump stage, when \<open>createBackup\<close> fails, or when it succeeds
  and \<open>uploadFile\<close> fails, \<open>backupAndUpload\<close> rejects with that error, no \<open>unlinkSync\<close> is
  called in the whole run, and the filesystem is as the dump process left it.
\<close>

theorem failure_skips_retention:
  assumes "isValidConfig (Some c)" and "getMongodbConnectionInstance e c = Inr inst"
    and "s3 c = Some s" and "prepareFolderStructure e c (createS3Instance s w0) = (Inr (), w)"
  shows "let d = getBackUpPath e c;
             name = getFileName e (i_database inst) (timezoneOffset c);
             full = path_resolve d name
         in (\<forall>err w1. createBackup e inst full w = (Inl err, w1) \<longrightarrow>
               backupAndUpload e (Some c) w0 = (Rejected err, w1)
             \<and> filter is_unlink (trace w1) = filter is_unlink (trace w0)
             \<and> fs w1 = (case createBackup_command inst full of
                          Inl x \<Rightarrow> fs w
                        | Inr command \<Rightarrow> snd (exec e command (fs w))))
          \<and> (\<forall>err w1 w2. createBackup e inst full w = (Inr (), w1)
                 \<and> uploadFile e s full name w1 = (Inl err, w2) \<longrightarrow>
               backupAndUpload e (Some c) w0 = (Rejected err, w2)
             \<and> filter is_unlink (trace w2) = filter is_unlink (trace w0)
             \<and> fs w2 = fs w1)"
proof -
  let ?d = "getBackUpPath e c"
  let ?name = "getFileName e (i_database inst) (timezoneOffset c)"
  let ?full = "path_resolve ?d ?name"
  have chain: "backupAndUpload e (Some c) w0 = promise_chain e c s inst ?full ?name ?d w"
    by (rule backupAndUpload_chain [OF assms])
  have start: "filter is_unlink (trace w) = filter is_unlink (trace w0)"
    using prepareFolderStructure_unlinks [OF assms(4)] createS3Instance_world [of s w0] by simp
  have dump: "backupAndUpload e (Some c) w0 = (Rejected err, w1)
      \<and> filter is_unlink (trace w1) = filter is_unlink (trace w0)
      \<and> fs w1 = (case createBackup_command inst ?full of
                   Inl x \<Rightarrow> fs w
                 | Inr command \<Rightarrow> snd (exec e command (fs w)))"
    if "createBackup e inst ?full w = (Inl err, w1)" for err w1
    using that createBackup_world [OF that] start by (simp add: chain promise_chain_def)
  have upload: "backupAndUpload e (Some c) w0 = (Rejected err, w2)
      \<and> filter is_unlink (trace w2) = filter is_unlink (trace w0)
      \<and> fs w2 = fs w1"
    if "createBackup e inst ?full w = (Inr (), w1)" and "uploadFile e s ?full ?name w1 = (Inl err, w2)"
    for err w1 w2
    using that createBackup_world [OF that(1)] uploadFile_world [OF that(2)] start
    by (simp add: chain promise_chain_def)
  from dump upload show ?thesis
    unfolding Let_def by blast
qed

text \<open>
  A dump that exits with an error after writing part of the archive, and an upload that is
  denied: the archive stays where it is.
\<close>

theorem failure_skips_retention_witness:
  "backupAndUpload (sample_env (dump_to [''tmp'', ''sales_2020-01-02T03-04-05.gz''] (Some ''exit 1'')) None)
      (Some (sample_config False None (Some 27017))) \<lparr>fs = [([''tmp''], Dir)], trace = []\<rparr>
    = (Rejected (DumpFailure ''exit 1''),
       \<lparr>fs = [([''tmp''], Dir), ([''tmp'', ''sales_2020-01-02T03-04-05.gz''], File ''dump'')],
         trace = [AwsConfigUpdate [(''accessKeyId'', JStr ''a''), (''secretAccessKey'', JStr ''b''),
                                    (''region'', JStr ''us-east-1'')],
                  Exec ''mongodump -h localhost --port=27017 -d sales --quiet --gzip --archive=/tmp/sales_2020-01-02T03-04-05.gz'']\<rparr>)
   \<and> fst (backupAndUpload (sample_env (dump_to [''tmp'', ''sales_2020-01-02T03-04-05.gz''] None) (Some ''AccessDenied''))
      (Some (sample_config False None (Some 27017))) \<lparr>fs = [([''tmp''], Dir)], trace = []\<rparr>)
    = Rejected (UploadFailure ''AccessDenied'')
   \<and> fs (snd (backupAndUpload (sample_env (dump_to [''tmp'', ''sales_2020-01-02T03-04-05.gz''] None) (Some ''AccessDenied''))
      (Some (sample_config False None (Some 27017))) \<lparr>fs = [([''tmp''], Dir)], trace = []\<rparr>))
    = [([''tmp''], Dir), ([''tmp'', ''sales_2020-01-02T03-04-05.gz''], File ''dump'')]"
proof -
  let ?c = "sample_config False None (Some 27017)"
  let ?bad_dump = "sample_env (dump_to [''tmp'', ''sales_2020-01-02T03-04-05.gz''] (Some ''exit 1'')) None"
  let ?bad_upload = "sample_env (dump_to [''tmp'', ''sales_2020-01-02T03-04-05.gz''] None) (Some ''AccessDenied'')"
  let ?init = "\<lparr>fs = [([''tmp''], Dir)], trace = []\<rparr>"
  let ?inst = "\<lparr>i_scheme = ''mongodb'', i_username = None, i_password = None,
                i_database = Some ''sales'', i_ssl = None, i_authenticationDatabase = None,
                i_hosts = [\<lparr>hp_host = Some ''localhost'', hp_port = Some 27017\<rparr>]\<rparr>"
  let ?ready = "createS3Instance (sample_s3 None) ?init"
  have valid: "isValidConfig (Some ?c)"
    by (simp add: eval_defs)
  have inst: "getMongodbConnectionInstance env ?c = Inr ?inst" for env
    by (simp add: eval_defs)
  have store: "s3 ?c = Some (sample_s3 None)"
    by (simp add: sample_config_def)
  have prep: "prepareFolderStructure env ?c ?ready = (Inr (), ?ready)" for env
    by (simp add: prepareFolderStructure_def sample_config_def)
  from failure_skips_retention [OF valid inst store prep, of ?bad_dump]
       failure_skips_retention [OF valid inst store prep, of ?bad_upload]
  show ?thesis
    by (simp add: eval_defs dump_to_def)
qed

text \<open>
  C8: with \<open>keepLocalBackups\<close>, when no maximum count is configured or the plain files of the
  staging directory are no more than the maximum, \<open>cleanFs\<close> leaves the filesystem as it is
  and calls no \<open>unlinkSync\<close>: the artifact, like every other file, stays.
\<close>

theorem retention_spares_artifact:
  assumes "keepLocalBackups c"
    and "noOfLocalBackups c = None
       \<or> (\<exists>N. noOfLocalBackups c = Some N \<and> int (length (plain_files (fs w) d)) \<le> N)"
  shows "fs (snd (cleanFs c p d w)) = fs w
       \<and> filter is_unlink (trace (snd (cleanFs c p d w))) = filter is_unlink (trace w)"
proof (cases "truthy_num (noOfLocalBackups c)")
  case False
  with assms(1) show ?thesis by (simp add: cleanFs_def)
next
  case True
  with assms(2) obtain N where cap: "noOfLocalBackups c = Some N"
    and le: "int (length (plain_files (fs w) d)) \<le> N"
    by auto
  obtain r1 w1 where rd: "readdirSync d w = (r1, w1)"
    by (cases "readdirSync d w")
  from readdirSync_world [OF rd]
  have w1: "fs w1 = fs w" "filter is_unlink (trace w1) = filter is_unlink (trace w)"
    by simp_all
  show ?thesis
  proof (cases r1)
    case (Inl err)
    with assms(1) True rd w1 show ?thesis by (simp add: cleanFs_def)
  next
    case (Inr items)
    obtain r2 w2 where fl: "filter_isFile d items w1 = (r2, w2)"
      by (cases "filter_isFile d items w1")
    from filter_isFile_world [OF fl] w1
    have w2: "fs w2 = fs w" "filter is_unlink (trace w2) = filter is_unlink (trace w)"
      by simp_all
    show ?thesis
    proof (cases r2)
      case (Inl err)
      with assms(1) True rd \<open>r1 = Inr items\<close> fl w2 show ?thesis by (simp add: cleanFs_def)
    next
      case (Inr files)
      from readdirSync_result rd \<open>r1 = Inr items\<close> have "items = dir_names (fs w) d" by blast
      moreover from fl Inr have "filter_isFile d items w1 = (Inr files, w2)" by simp
      from filter_isFile_result [OF this] w1
      have "files = filter (\<lambda>x. is_file (fs w) (path_resolve d x)) items" by simp
      ultimately have "files = plain_files (fs w) d" by (simp add: plain_files_def)
      with le have "js_slice N (rev files) = []"
        by (simp add: js_slice_def)
      with assms(1) True cap rd \<open>r1 = Inr items\<close> fl Inr w2 show ?thesis
        by (simp add: cleanFs_def)
    qed
  qed
qed

text \<open>
  Three files under a cap of \<open>3\<close>, and under no cap.
\<close>

theorem retention_spares_artifact_witness:
  "fs (snd (cleanFs (sample_config True (Some 3) (Some 27017)) [''app'', ''backups'', ''c.gz'']
              [''app'', ''backups''] \<lparr>fs = staged @ [([''app'', ''backups'', ''c.gz''], File ''c'')], trace = []\<rparr>))
     = staged @ [([''app'', ''backups'', ''c.gz''], File ''c'')]
   \<and> fs (snd (cleanFs (sample_config True None (Some 27017)) [''app'', ''backups'', ''c.gz'']
              [''app'', ''backups''] \<lparr>fs = staged @ [([''app'', ''backups'', ''c.gz''], File ''c'')], trace = []\<rparr>))
     = staged @ [([''app'', ''backups'', ''c.gz''], File ''c'')]"
proof -
  let ?dir_w = "\<lparr>fs = staged @ [([''app'', ''backups'', ''c.gz''], File ''c'')], trace = []\<rparr>"
  have pf: "plain_files (fs ?dir_w) [''app'', ''backups''] = [''a.gz'', ''b.gz'', ''c.gz'']"
    by (simp add: plain_files_def eval_defs staged_def)
  show ?thesis
    using retention_spares_artifact [of "sample_config True (Some 3) (Some 27017)" ?dir_w
        "[''app'', ''backups'']" "[''app'', ''backups'', ''c.gz'']"]
      retention_spares_artifact [of "sample_config True None (Some 27017)" ?dir_w
        "[''app'', ''backups'']" "[''app'', ''backups'', ''c.gz'']"]
    unfolding pf by (simp add: sample_config_def)
qed

text \<open>
  C9: with \<open>keepLocalBackups\<close> and a maximum count of \<open>0\<close>, \<open>cleanFs\<close> returns without
  touching the world, exactly as it does when no maximum is configured.
\<close>

theorem zero_cap_is_no_cap:
  assumes "keepLocalBackups c" and "noOfLocalBackups c = Some 0"
  shows "cleanFs c p d w = (Inr (), w)
       \<and> cleanFs c p d w = cleanFs (c\<lparr>noOfLocalBackups := None\<rparr>) p d w"
  using assms by (simp add: cleanFs_def)

text \<open>
  A staging directory with two files and a cap of \<open>0\<close>: nothing is deleted.
\<close>

theorem zero_cap_is_no_cap_witness:
  "cleanFs (sample_config True (Some 0) (Some 27017)) [''app'', ''backups'', ''c.gz''] [''app'', ''backups'']
     \<lparr>fs = [([''app'', ''backups''], Dir), ([''app'', ''backups'', ''a.gz''], File ''a''),
            ([''app'', ''backups'', ''c.gz''], File ''c'')], trace = []\<rparr>
   = (Inr (), \<lparr>fs = [([''app'', ''backups''], Dir), ([''app'', ''backups'', ''a.gz''], File ''a''),
            ([''app'', ''backups'', ''c.gz''], File ''c'')], trace = []\<rparr>)"
  using zero_cap_is_no_cap [of "sample_config True (Some 0) (Some 27017)" "[''app'', ''backups'', ''c.gz'']"
      "[''app'', ''backups'']"]
  by (simp add: sample_config_def)

text \<open>
  C10: when a password is present and the username is absent, the dump command has no
  credential flag between its head and its tail, and it is the command of the same connection
  without the password.
\<close>

theorem password_without_username_ignored:
  assumes "i_hosts m = h # hs" and "\<not> truthy_str (i_username m)" and "truthy_str (i_password m)"
  shows "createBackup_command m f =
           Inr (''mongodump -h '' @ tpl_null (str_or_null (hp_host h))
                @ '' --port='' @ tpl_num_null (num_or_null (hp_port h))
                @ '' -d '' @ tpl_undefined (i_database m)
                @ '' --quiet --gzip --archive='' @ path_string f
                @ (if truthy_bool (i_ssl m) then '' --ssl'' else [])
                @ (if truthy_str (i_authenticationDatabase m)
                   then '' --authenticationDatabase='' @ tpl_null (i_authenticationDatabase m)
                   else []))
       \<and> createBackup_command m f = createBackup_command (m\<lparr>i_password := None\<rparr>) f"
  using assms
  by (simp add: createBackup_command_def Let_def str_or_null_def tpl_null_def)

text \<open>
  The command for a connection with a password and no username.
\<close>

theorem password_without_username_ignored_witness:
  "createBackup_command (sample_instance None (Some ''secret'')) [''tmp'', ''x.gz'']
     = Inr ''mongodump -h localhost --port=27017 -d sales --quiet --gzip --archive=/tmp/x.gz --ssl --authenticationDatabase=admin''"
  using password_without_username_ignored [of "sample_instance None (Some ''secret'')"
      "\<lparr>hp_host = Some ''localhost'', hp_port = Some 27017\<rparr>" "[]" "[''tmp'', ''x.gz'']"]
  by (simp add: sample_instance_def Let_def str_or_null_def num_or_null_def tpl_null_def
      tpl_num_null_def tpl_undefined_def path_string_def number_string_def digits.simps digit_char_def)

end
